theory Spec2Isabelle
  imports Main
begin

chapter \<open>The model of the program\<close>

text \<open>
  The program is a command-line client for the Gmail API. Its helpers exist in two copies
  in the repository: \<^verbatim>\<open>extractHeaders\<close>, \<^verbatim>\<open>getBody\<close> and \<^verbatim>\<open>processAttachments\<close> next to the
  command handlers, and \<^verbatim>\<open>ExtractHeaders\<close>, \<^verbatim>\<open>GetBody\<close> and \<^verbatim>\<open>ProcessAttachments\<close> in the package
  \<^verbatim>\<open>gmail\<close>. The copies differ in the capital letter only; the two copies of \<^verbatim>\<open>runSend\<close>
  differ in one printed line. One model stands for both.

  Of the libraries, base64 is modelled as it computes. Every other library, system or
  remote call is modelled by what the outside answers to it (the record \<open>env\<close>) and by
  the effect it leaves (the record \<open>world\<close>).
\<close>

section \<open>Errors and text\<close>

text \<open>
  A Go \<^verbatim>\<open>error\<close> is modelled by its message. \<^verbatim>\<open>fmt.Errorf("...: %w", err)\<close> yields an
  error whose message is the format's text followed by the message of \<^verbatim>\<open>err\<close>.
  Go strings are byte sequences, here lists of 8-bit characters.
\<close>

datatype error = Error (msg: string)

definition Errorf_w :: "string \<Rightarrow> error \<Rightarrow> error" where
  "Errorf_w prefix err = Error (prefix @ msg err)"

definition LF :: string where
  "LF = [CHR 0x0A]"

definition CRLF :: string where
  "CRLF = [CHR 0x0D, CHR 0x0A]"

definition TAB :: string where
  "TAB = [CHR 0x09]"

section \<open>\<^verbatim>\<open>base64.URLEncoding\<close>\<close>

text \<open>
  The standard library's URL-safe base64 with \<^verbatim>\<open>=\<close> padding, as \<^verbatim>\<open>runSend\<close>,
  \<^verbatim>\<open>getBody\<close> and \<^verbatim>\<open>processAttachments\<close> call it. \<^verbatim>\<open>EncodeToString\<close> turns each group of three
  bytes into four characters of the alphabet and pads a last group of one or two bytes.
  The library's \<^verbatim>\<open>val>>18&0x3F\<close> is written \<open>val div 262144 mod 64\<close>, and so on; \<open>encode6\<close>
  takes the six low bits.
\<close>

definition encodeURL :: string where
  "encodeURL = ''ABCDEFGHIJKLMNOPQRSTUVWXYZabcdefghijklmnopqrstuvwxyz0123456789-_''"

definition encode6 :: "nat \<Rightarrow> char" where
  "encode6 v = encodeURL ! (v mod 64)"

fun EncodeToString :: "string \<Rightarrow> string" where
  "EncodeToString (a # b # c # src) =
     (let val = of_char a * 65536 + of_char b * 256 + of_char c in
      encode6 (val div 262144) # encode6 (val div 4096) # encode6 (val div 64) # encode6 val #
      EncodeToString src)"
| "EncodeToString [a, b] =
     (let val = of_char a * 65536 + of_char b * 256 in
      [encode6 (val div 262144), encode6 (val div 4096), encode6 (val div 64), CHR ''=''])"
| "EncodeToString [a] =
     (let val = of_char a * 65536 in
      [encode6 (val div 262144), encode6 (val div 4096), CHR ''='', CHR ''=''])"
| "EncodeToString [] = []"

text \<open>
  The decoding table maps each character of the alphabet to its index; any other byte has
  no entry.
\<close>

fun decodeMap_loop :: "nat \<Rightarrow> string \<Rightarrow> char \<Rightarrow> nat option" where
  "decodeMap_loop i [] c = None"
| "decodeMap_loop i (e # encoder) c =
     (if c = e then Some i else decodeMap_loop (i + 1) encoder c)"

definition decodeMap :: "char \<Rightarrow> nat option" where
  "decodeMap c = decodeMap_loop 0 encodeURL c"

text \<open>
  One quantum: up to four 6-bit values give up to three bytes; a quantum cut short by
  padding gives one byte (two values) or two bytes (three values). The encoding is not
  strict, so the unused low bits of a padded quantum are ignored.
\<close>

definition quantum_bytes :: "nat list \<Rightarrow> string" where
  "quantum_bytes dbuf =
     (let d = dbuf @ [0, 0, 0, 0];
          val = d ! 0 * 262144 + d ! 1 * 4096 + d ! 2 * 64 + d ! 3 in
      take (length dbuf - 1) [char_of (val div 65536), char_of (val div 256), char_of val])"

fun skip_newlines :: "string \<Rightarrow> string" where
  "skip_newlines [] = []"
| "skip_newlines (c # src) =
     (if c = CHR 0x0A \<or> c = CHR 0x0D then skip_newlines src else c # src)"

text \<open>
  The decoder reads quantum after quantum; \<open>si\<close> is the index in the input of the next
  character and \<open>dbuf\<close> holds the values of the quantum being read. Carriage returns and
  line feeds are skipped. The input must end on a quantum boundary or in correct padding;
  padding may only be followed by line breaks. \<open>Inl\<close> is the library's
  \<^verbatim>\<open>CorruptInputError\<close> with the input offset it reports: the index of a character outside
  the alphabet, of a misplaced padding character or of the first character after the
  padding; for an input that ends inside a quantum, the input's length less the number of
  values read; for a second padding character that is missing, the input's length at the
  end of the input and otherwise the index before the character found in its place.
\<close>

fun decode_quanta :: "nat \<Rightarrow> nat list \<Rightarrow> string \<Rightarrow> nat + string" where
  "decode_quanta si dbuf [] = (if dbuf = [] then Inr [] else Inl (si - length dbuf))"
| "decode_quanta si dbuf (c # src) =
     (case decodeMap c of
        Some out \<Rightarrow>
          (if length dbuf = 3
           then (case decode_quanta (si + 1) [] src of
                   Inl offset \<Rightarrow> Inl offset
                 | Inr rest \<Rightarrow> Inr (quantum_bytes (dbuf @ [out]) @ rest))
           else decode_quanta (si + 1) (dbuf @ [out]) src)
      | None \<Rightarrow>
          if c = CHR 0x0A \<or> c = CHR 0x0D then decode_quanta (si + 1) dbuf src
          else if c \<noteq> CHR ''='' then Inl si
          else if length dbuf = 2 then
            (case skip_newlines src of
               [] \<Rightarrow> Inl (si + 1 + length src)
             | c' # src' \<Rightarrow>
                 if c' \<noteq> CHR ''='' then Inl (si + (length src - length (c' # src')))
                 else if skip_newlines src' = [] then Inr (quantum_bytes dbuf)
                 else Inl (si + 1 + length src - length (skip_newlines src')))
          else if length dbuf = 3 then
            (if skip_newlines src = [] then Inr (quantum_bytes dbuf)
             else Inl (si + 1 + length src - length (skip_newlines src)))
          else Inl si)"

text \<open>
  The text of a \<^verbatim>\<open>CorruptInputError\<close> names the offset in decimal, as \<^verbatim>\<open>strconv.FormatInt\<close>
  writes it.
\<close>

fun FormatInt :: "nat \<Rightarrow> string" where
  "FormatInt n =
     (if n < 10 then [''0123456789'' ! n]
      else FormatInt (n div 10) @ [''0123456789'' ! (n mod 10)])"

definition CorruptInputError :: "nat \<Rightarrow> error" where
  "CorruptInputError offset = Error (''illegal base64 data at input byte '' @ FormatInt offset)"

text \<open>\<^verbatim>\<open>DecodeString\<close> returns the bytes or the error.\<close>

definition DecodeString :: "string \<Rightarrow> error + string" where
  "DecodeString s =
     (case decode_quanta 0 [] s of
        Inl offset \<Rightarrow> Inl (CorruptInputError offset)
      | Inr data \<Rightarrow> Inr data)"

section \<open>Messages of the mail API\<close>

text \<open>
  The message types of the Gmail client library, with the fields the program reads. A part
  is a tree: it may carry a body and any number of sub-parts. The body is a pointer in Go
  and may be absent.
\<close>

record MessagePartHeader =
  Name :: string
  Value :: string

record MessagePartBody =
  AttachmentId :: string
  Data :: string
  Size :: int

datatype MessagePart =
  MessagePart (Body: "MessagePartBody option") (Filename: string)
    (Headers: "MessagePartHeader list") (MimeType: string) (PartId: string)
    (Parts: "MessagePart list")

section \<open>Message headers: \<^verbatim>\<open>extractHeaders\<close>\<close>

text \<open>
  The \<^verbatim>\<open>for ... range headers\<close> loop of \<^verbatim>\<open>extractHeaders\<close>, with the two named results
  \<^verbatim>\<open>subject\<close> and \<^verbatim>\<open>from\<close> as the loop state. The \<^verbatim>\<open>switch\<close> compares \<^verbatim>\<open>header.Name\<close> with the
  string constants by Go's string equality (byte for byte).
\<close>

fun extractHeaders_loop :: "MessagePartHeader list \<Rightarrow> string \<times> string \<Rightarrow> string \<times> string" where
  "extractHeaders_loop [] (subject, frm) = (subject, frm)"
| "extractHeaders_loop (header # headers) (subject, frm) =
     (if Name header = ''Subject'' then extractHeaders_loop headers (Value header, frm)
      else if Name header = ''From'' then extractHeaders_loop headers (subject, Value header)
      else extractHeaders_loop headers (subject, frm))"

text \<open>The named results start as Go's zero value, the empty string.\<close>

definition extractHeaders :: "MessagePartHeader list \<Rightarrow> string \<times> string" where
  "extractHeaders headers = extractHeaders_loop headers ('''', '''')"

text \<open>
  The specification's wording: the value of the last header whose name is exactly the given
  one, and the empty string when there is none.
\<close>

definition last_header_value :: "string \<Rightarrow> MessagePartHeader list \<Rightarrow> string" where
  "last_header_value name headers =
     (let named = filter (\<lambda>h. Name h = name) headers in
      if named = [] then '''' else Value (last named))"

section \<open>Message bodies: \<^verbatim>\<open>getBody\<close>\<close>

text \<open>
  Both places where \<^verbatim>\<open>getBody\<close> reads a payload have the same shape:
  \<^verbatim>\<open>Body != nil && Body.Data != ""\<close>, then \<^verbatim>\<open>DecodeString\<close>, then \<^verbatim>\<open>err == nil\<close>. The result
  is the decoded text, or nothing when any of the three tests fails.
\<close>

definition inline_payload :: "MessagePartBody option \<Rightarrow> string option" where
  "inline_payload body =
     (case body of
        None \<Rightarrow> None
      | Some b \<Rightarrow>
          if Data b \<noteq> '''' then
            (case DecodeString (Data b) of Inr data \<Rightarrow> Some data | Inl err \<Rightarrow> None)
          else None)"

text \<open>
  The loop over \<^verbatim>\<open>part.Parts\<close>: \<open>Some\<close> is the \<^verbatim>\<open>return\<close> inside the loop, \<open>None\<close> means
  the loop ran to its end.
\<close>

fun getBody_parts :: "MessagePart list \<Rightarrow> string option" where
  "getBody_parts [] = None"
| "getBody_parts (p # ps) =
     (if MimeType p = ''text/plain'' then
        (case inline_payload (Body p) of
           Some data \<Rightarrow> Some data
         | None \<Rightarrow> getBody_parts ps)
      else getBody_parts ps)"

definition getBody :: "MessagePart \<Rightarrow> string" where
  "getBody part =
     (case inline_payload (Body part) of
        Some data \<Rightarrow> data
      | None \<Rightarrow>
          (case getBody_parts (Parts part) of
             Some data \<Rightarrow> data
           | None \<Rightarrow> ''[No text content]''))"

text \<open>
  A part has a payload when the test and the decoding of \<^verbatim>\<open>getBody\<close> succeed on it.
\<close>

definition has_payload :: "MessagePart \<Rightarrow> bool" where
  "has_payload p = (inline_payload (Body p) \<noteq> None)"

text \<open>
  The specification's wording for \<^verbatim>\<open>getBody\<close>, written over the fields of the part and the
  base64url decoder alone. A part carries a decodable inline payload when it has a body,
  the body's data is not empty, and the data is valid base64url; the payload's text is
  the decoded data.
\<close>

definition payload_decodes :: "MessagePart \<Rightarrow> bool" where
  "payload_decodes p =
     (case Body p of
        None \<Rightarrow> False
      | Some b \<Rightarrow>
          Data b \<noteq> '''' \<and> (case DecodeString (Data b) of Inr text \<Rightarrow> True | Inl err \<Rightarrow> False))"

definition payload_text :: "MessagePart \<Rightarrow> string" where
  "payload_text p =
     (case Body p of
        None \<Rightarrow> ''''
      | Some b \<Rightarrow> (case DecodeString (Data b) of Inr text \<Rightarrow> text | Inl err \<Rightarrow> ''''))"

text \<open>
  The result the specification gives: the part's own decodable payload, otherwise that of
  the first immediate child of type \<^verbatim>\<open>text/plain\<close> that has one, otherwise the sentinel.
\<close>

definition spec_getBody :: "MessagePart \<Rightarrow> string" where
  "spec_getBody part =
     (if payload_decodes part then payload_text part
      else (case filter (\<lambda>p. MimeType p = ''text/plain'' \<and> payload_decodes p) (Parts part) of
              [] \<Rightarrow> ''[No text content]''
            | p # ps \<Rightarrow> payload_text p))"

text \<open>
  The scope the specification names for the sentinel: the part itself and its immediate
  children, of any type.
\<close>

definition scope_has_payload :: "MessagePart \<Rightarrow> bool" where
  "scope_has_payload part = list_ex has_payload (part # Parts part)"

text \<open>The scope the code reads: the part itself and its children of type \<^verbatim>\<open>text/plain\<close>.\<close>

definition text_scope :: "MessagePart \<Rightarrow> MessagePart list" where
  "text_scope part = part # filter (\<lambda>p. MimeType p = ''text/plain'') (Parts part)"

text \<open>What \<^verbatim>\<open>getBody\<close> can see of a part: its own body, and type and body of each child.\<close>

definition body_view :: "MessagePart \<Rightarrow> MessagePartBody option \<times> (string \<times> MessagePartBody option) list" where
  "body_view part = (Body part, map (\<lambda>p. (MimeType p, Body p)) (Parts part))"

section \<open>The world outside the program\<close>

text \<open>
  Modelled from the spec: the Token of the OAuth2 library, whose declaration is not part of
  the repository, as the data model gives it: access value, refresh value, expiry instant
  and token type.
\<close>

record Token =
  AccessToken :: string
  TokenType :: string
  RefreshToken :: string
  Expiry :: int

text \<open>
  The OAuth2 client configuration that \<^verbatim>\<open>google.ConfigFromJSON\<close> returns, the
  authorization URL that \<^verbatim>\<open>AuthCodeURL\<close> builds from it (kept as its query parameters, not
  as URL-encoded text), the HTTP client and the mail service handle.
\<close>

record Config =
  ClientID :: string
  ClientSecret :: string
  Endpoint :: string
  RedirectURL :: string
  Scopes :: "string list"

record AuthURL =
  endpoint :: string
  client_id :: string
  redirect_uri :: string
  scope :: "string list"
  state :: string
  access_type :: string

definition AuthCodeURL :: "Config \<Rightarrow> string \<Rightarrow> string \<Rightarrow> AuthURL" where
  "AuthCodeURL config st access =
     \<lparr>endpoint = Endpoint config, client_id = ClientID config,
      redirect_uri = RedirectURL config, scope = Scopes config, state = st,
      access_type = access\<rparr>"

datatype Client = Client Config Token

datatype Service = Service Client

text \<open>
  An inbound request to the callback path is its URL query, a list of key-value pairs;
  \<^verbatim>\<open>Query().Get(key)\<close> is the first value of the key, or the empty string.
\<close>

type_synonym request = "(string \<times> string) list"

definition Query_Get :: "request \<Rightarrow> string \<Rightarrow> string" where
  "Query_Get r key = (case map_of r key of None \<Rightarrow> '''' | Some v \<Rightarrow> v)"

text \<open>
  Every effect of the program on the outside is recorded, in order, in a trace: what it
  prints, the calls to the operating system and the remote calls, each recorded when it is
  made, whether or not it succeeds.
\<close>

datatype action =
    Stdout string
  | Printf_URL string AuthURL
  | Stderr string
  | ListenAndServe string
  | Respond string string
  | Shutdown
  | ExecStart "string list" AuthURL
  | Exchange_call string
  | MkdirAll string
  | OpenFile string
  | Encode Token
  | WriteFile string string
  | Messages_Send string string
  | Attachments_Get_call string string string

text \<open>
  The state of the world: the files (path to content), whether the loopback HTTP server is
  listening, and the trace.
\<close>

record world =
  files :: "string \<rightharpoonup> string"
  listening :: bool
  trace :: "action list"

definition emit :: "action \<Rightarrow> world \<Rightarrow> world" where
  "emit a w = w\<lparr>trace := trace w @ [a]\<rparr>"

text \<open>
  What the outside answers: the results of the library and system calls the program makes.
  \<open>callback\<close> is the first request that reaches the callback path within three minutes,
  if there is one; \<open>ListenAndServe_error\<close> is set when the server cannot start.
\<close>

record env =
  UserHomeDir :: "error + string"
  GOOS :: string
  filepath_Join :: "string \<Rightarrow> string \<Rightarrow> string"
  filepath_Dir :: "string \<Rightarrow> string"
  ConfigFromJSON :: "string \<Rightarrow> string list \<Rightarrow> error + Config"
  json_Decode :: "string \<Rightarrow> error + Token"
  json_Marshal :: "Token \<Rightarrow> string"
  MkdirAll_error :: "string \<Rightarrow> error option"
  OpenFile_error :: "string \<Rightarrow> error option"
  Encode_error :: "string \<Rightarrow> error option"
  ListenAndServe_error :: "error option"
  callback :: "request option"
  Exchange :: "Config \<Rightarrow> string \<Rightarrow> error + Token"
  NewService_error :: "Client \<Rightarrow> error option"
  Send_error :: "string \<Rightarrow> error option"
  Attachments_Get :: "string \<Rightarrow> string \<Rightarrow> error + string"
  WriteFile_error :: "string \<Rightarrow> error option"
  Open_error :: "string \<Rightarrow> error option"

text \<open>
  Opening a file for reading fails when there is no such file, and for any other reason
  the operating system has (a component of the path is not a directory, permission is
  denied): those are \<open>Open_error\<close>.
\<close>

definition os_Open :: "env \<Rightarrow> world \<Rightarrow> string \<Rightarrow> error + string" where
  "os_Open env w file =
     (case Open_error env file of
        Some err \<Rightarrow> Inl err
      | None \<Rightarrow>
          (case files w file of
             None \<Rightarrow> Inl (Error (''open '' @ file @ '': no such file or directory''))
           | Some content \<Rightarrow> Inr content))"

text \<open>Reading a whole file fails in the same way.\<close>

definition os_ReadFile :: "env \<Rightarrow> world \<Rightarrow> string \<Rightarrow> error + string" where
  "os_ReadFile env w file = os_Open env w file"

section \<open>Attachments: \<^verbatim>\<open>processAttachments\<close>\<close>









text \<open>The remote fetches and the file writes of a trace, in their order.\<close>

fun is_transfer :: "action \<Rightarrow> bool" where
  "is_transfer (Attachments_Get_call userId messageID attachmentID) = True"
| "is_transfer (WriteFile path data) = True"
| "is_transfer a = False"

definition transfers :: "world \<Rightarrow> action list" where
  "transfers w = filter is_transfer (trace w)"


section \<open>Authentication: \<^verbatim>\<open>auth.go\<close>\<close>

definition credentialsFile :: string where
  "credentialsFile = ''google_credentials.json''"

definition tokenFile :: string where
  "tokenFile = ''token_gmail.json''"

text \<open>The scope constants of the Gmail client library.\<close>

definition scopes :: "string list" where
  "scopes =
     [''https://www.googleapis.com/auth/gmail.modify'',
      ''https://www.googleapis.com/auth/gmail.send'',
      ''https://www.googleapis.com/auth/gmail.labels'']"

definition getCredentialsPath :: "env \<Rightarrow> string" where
  "getCredentialsPath env =
     (case UserHomeDir env of
        Inl err \<Rightarrow> ''''
      | Inr home \<Rightarrow> filepath_Join env home ''.credentials'')"

subsection \<open>The token file\<close>

text \<open>
  \<^verbatim>\<open>tokenFromFile\<close> opens the file and decodes its content as JSON; the caller only reads
  the token when the error is nil.
\<close>

definition tokenFromFile :: "env \<Rightarrow> world \<Rightarrow> string \<Rightarrow> error + Token" where
  "tokenFromFile env w file =
     (case os_Open env w file of
        Inl err \<Rightarrow> Inl err
      | Inr content \<Rightarrow> json_Decode env content)"

text \<open>
  \<^verbatim>\<open>saveToken\<close> creates the directory, opens the file with \<^verbatim>\<open>O_CREATE|O_TRUNC\<close>, which
  leaves it empty, and encodes the token into it: the JSON text and a line feed. When the
  encoder's write fails the file stays as the truncation left it.
\<close>

definition saveToken :: "env \<Rightarrow> string \<Rightarrow> Token \<Rightarrow> world \<Rightarrow> error option \<times> world" where
  "saveToken env path token w =
     (let w1 = emit (Stderr (''Saving credentials to: '' @ path @ LF)) w;
          w2 = emit (MkdirAll (filepath_Dir env path)) w1 in
      case MkdirAll_error env (filepath_Dir env path) of
        Some err \<Rightarrow> (Some err, w2)
      | None \<Rightarrow>
          (let w3 = emit (OpenFile path) w2 in
           case OpenFile_error env path of
             Some err \<Rightarrow> (Some err, w3)
           | None \<Rightarrow>
               (let w4 = emit (Encode token) (w3\<lparr>files := (files w3)(path \<mapsto> '''')\<rparr>) in
                case Encode_error env path of
                  Some err \<Rightarrow> (Some err, w4)
                | None \<Rightarrow>
                    (None, w4\<lparr>files := (files w4)(path \<mapsto> json_Marshal env token @ LF)\<rparr>))))"

subsection \<open>The authorization flow\<close>

definition success_page :: string where
  "success_page =
     LF @ TAB @ TAB @ TAB @ ''<html>'' @
     LF @ TAB @ TAB @ TAB @ ''<body>'' @
     LF @ TAB @ TAB @ TAB @ TAB @ ''<h1>Authentication successful!</h1>'' @
     LF @ TAB @ TAB @ TAB @ TAB @
       ''<p>You can close this window and return to the terminal.</p>'' @
     LF @ TAB @ TAB @ TAB @ ''</body>'' @
     LF @ TAB @ TAB @ TAB @ ''</html>'' @
     LF @ TAB @ TAB"

text \<open>
  The handler registered for \<^verbatim>\<open>/oauth2callback\<close>. Its result is what it sends: an error on
  \<^verbatim>\<open>errChan\<close> (\<open>Inl\<close>) or the code on \<^verbatim>\<open>codeChan\<close> (\<open>Inr\<close>), after writing the page. It
  reads the \<^verbatim>\<open>code\<close> parameter of the query and nothing else.
\<close>

definition callback_handler :: "request \<Rightarrow> world \<Rightarrow> (error + string) \<times> world" where
  "callback_handler r w =
     (let code = Query_Get r ''code'' in
      if code = '''' then (Inl (Error ''no code in callback''), w)
      else (Inr code, emit (Respond ''text/html'' success_page) w))"

text \<open>The command that opens the browser, by operating system.\<close>

definition browser_command :: "string \<Rightarrow> string list option" where
  "browser_command goos =
     (if goos = ''darwin'' then Some [''open'']
      else if goos = ''linux'' then Some [''xdg-open'']
      else if goos = ''windows'' then Some [''rundll32'', ''url.dll,FileProtocolHandler'']
      else None)"

text \<open>
  \<^verbatim>\<open>getTokenFromWeb\<close>. The function sets the redirect URL in the configuration it is given
  (a pointer), so the changed configuration is part of the result. The \<^verbatim>\<open>select\<close> receives
  what comes first: the error of a server that could not start, the handler's message for
  the first callback, or the timeout. The server is shut down after the \<^verbatim>\<open>select\<close>, on the
  path that received a code; the two other cases return inside the \<^verbatim>\<open>select\<close>.
\<close>

definition getTokenFromWeb :: "env \<Rightarrow> Config \<Rightarrow> world \<Rightarrow> (error + Token) \<times> Config \<times> world" where
  "getTokenFromWeb env conf w =
     (let config = conf\<lparr>RedirectURL := ''http://localhost:8080/oauth2callback''\<rparr>;
          w1 = emit (ListenAndServe '':8080'') w;
          w2 = (case ListenAndServe_error env of
                  None \<Rightarrow> w1\<lparr>listening := True\<rparr>
                | Some err \<Rightarrow> w1);
          authURL = AuthCodeURL config ''state-token'' ''offline'';
          w3 = emit (Stdout (''Opening browser for authentication...'' @ LF)) w2;
          w4 = emit (Printf_URL (''If browser doesn'' @ [CHR 0x27] @ ''t open, visit:'' @ LF
                 @ ''%v'' @ LF @ LF) authURL) w3;
          w5 = (case browser_command (GOOS env) of
                  None \<Rightarrow> w4
                | Some cmd \<Rightarrow> emit (ExecStart cmd authURL) w4) in
      case ListenAndServe_error env of
        Some err \<Rightarrow> (Inl err, config, w5)
      | None \<Rightarrow>
          (case callback env of
             None \<Rightarrow> (Inl (Error ''authentication timeout after 3 minutes''), config, w5)
           | Some r \<Rightarrow>
               (case callback_handler r w5 of
                  (Inl err, w6) \<Rightarrow> (Inl err, config, w6)
                | (Inr code, w6) \<Rightarrow>
                    (let w7 = (emit Shutdown w6)\<lparr>listening := False\<rparr>;
                         w8 = emit (Exchange_call code) w7 in
                     case Exchange env config code of
                       Inl err \<Rightarrow>
                         (Inl (Errorf_w ''unable to retrieve token from web: '' err), config, w8)
                     | Inr tok \<Rightarrow>
                         (Inr tok, config,
                          emit (Stdout (LF @ ''Authentication successful!'' @ LF)) w8)))))"

subsection \<open>The client\<close>

definition getClient :: "env \<Rightarrow> world \<Rightarrow> (error + Client) \<times> world" where
  "getClient env w =
     (let credPath = filepath_Join env (getCredentialsPath env) credentialsFile;
          tokenPath = filepath_Join env (getCredentialsPath env) tokenFile in
      case os_ReadFile env w credPath of
        Inl err \<Rightarrow>
          (Inl (Errorf_w (''unable to read credentials file '' @ credPath @ '': '') err), w)
      | Inr b \<Rightarrow>
          (case ConfigFromJSON env b scopes of
             Inl err \<Rightarrow> (Inl (Errorf_w ''unable to parse credentials: '' err), w)
           | Inr config \<Rightarrow>
               (case tokenFromFile env w tokenPath of
                  Inr token \<Rightarrow> (Inr (Client config token), w)
                | Inl err \<Rightarrow>
                    (case getTokenFromWeb env config w of
                       (Inl err, config', w') \<Rightarrow> (Inl err, w')
                     | (Inr token, config', w') \<Rightarrow>
                         (case saveToken env tokenPath token w' of
                            (Some err, w'') \<Rightarrow>
                              (Inr (Client config' token),
                               emit (Stderr (''Warning: unable to save token: '' @ msg err @ LF))
                                 w'')
                          | (None, w'') \<Rightarrow> (Inr (Client config' token), w''))))))"

definition getGmailService :: "env \<Rightarrow> world \<Rightarrow> (error + Service) \<times> world" where
  "getGmailService env w =
     (case getClient env w of
        (Inl err, w') \<Rightarrow> (Inl err, w')
      | (Inr client, w') \<Rightarrow>
          (case NewService_error env client of
             Some err \<Rightarrow> (Inl (Errorf_w ''unable to create Gmail service: '' err), w')
           | None \<Rightarrow> (Inr (Service client), w')))"

section \<open>Sending: \<^verbatim>\<open>runSend\<close>\<close>

text \<open>The command line flags, the package's global variables.\<close>

record flags =
  attach :: "string list"
  bcc :: string
  body :: string
  cc :: string
  downloadDir :: string
  maxResults :: int
  query :: string
  subject :: string
  to :: string

text \<open>\<^verbatim>\<open>strings.Builder.WriteString\<close> appends to the text built so far.\<close>

definition WriteString :: "string \<Rightarrow> string \<Rightarrow> string" where
  "WriteString message s = message @ s"

text \<open>The lines of \<^verbatim>\<open>runSend\<close> that build the message text from the flags.\<close>

definition runSend_message :: "flags \<Rightarrow> string" where
  "runSend_message fl =
     (let message = '''';
          message = WriteString message (''To: '' @ to fl @ CRLF);
          message = (if cc fl \<noteq> '''' then WriteString message (''Cc: '' @ cc fl @ CRLF)
                     else message);
          message = (if bcc fl \<noteq> '''' then WriteString message (''Bcc: '' @ bcc fl @ CRLF)
                     else message);
          message = WriteString message (''Subject: '' @ subject fl @ CRLF);
          message = WriteString message CRLF;
          message = WriteString message (body fl) in
      message)"

text \<open>
  \<^verbatim>\<open>runSend\<close>: get the service, build the text, encode it and send it. The success line
  starts with a check mark (three bytes of UTF-8) in one copy of the file and without it in
  the other; the first is modelled.
\<close>

definition runSend :: "env \<Rightarrow> flags \<Rightarrow> world \<Rightarrow> error option \<times> world" where
  "runSend env fl w =
     (case getGmailService env w of
        (Inl err, w') \<Rightarrow> (Some err, w')
      | (Inr service, w') \<Rightarrow>
          (let raw = EncodeToString (runSend_message fl);
               w1 = emit (Messages_Send ''me'' raw) w' in
           case Send_error env raw of
             Some err \<Rightarrow> (Some (Errorf_w ''error sending email: '' err), w1)
           | None \<Rightarrow>
               (None,
                emit (Stderr ([CHR 0xE2, CHR 0x9C, CHR 0x85] @ '' Email sent successfully to ''
                  @ to fl @ LF)) w1)))"

text \<open>The raw messages handed to the send call, in the order of the calls.\<close>

fun sent_raw :: "action list \<Rightarrow> string list" where
  "sent_raw [] = []"
| "sent_raw (Messages_Send userId raw # as) = raw # sent_raw as"
| "sent_raw (a # as) = sent_raw as"

section \<open>Sample inputs\<close>

text \<open>
  Concrete inputs on which the properties below are run. \<open>env0\<close> is an environment in
  which every call succeeds, no callback arrives, and the token file's format is a toy
  one: the access value alone on a line.
\<close>

definition token0 :: Token where
  "token0 = \<lparr>AccessToken = ''ya29.a0'', TokenType = '''', RefreshToken = '''', Expiry = 0\<rparr>"

definition env0 :: env where
  "env0 =
     \<lparr>UserHomeDir = Inr ''/home/u'',
      GOOS = ''linux'',
      filepath_Join = (\<lambda>a b. a @ ''/'' @ b),
      filepath_Dir = (\<lambda>p. ''/home/u/.credentials''),
      ConfigFromJSON = (\<lambda>b sc.
        Inr \<lparr>ClientID = b, ClientSecret = ''secret'',
             Endpoint = ''https://accounts.google.com/o/oauth2/auth'',
             RedirectURL = '''', Scopes = sc\<rparr>),
      json_Decode = (\<lambda>s.
        if s \<noteq> '''' \<and> last s = CHR 0x0A
        then Inr \<lparr>AccessToken = butlast s, TokenType = '''', RefreshToken = '''', Expiry = 0\<rparr>
        else Inl (Error ''unexpected end of JSON input'')),
      json_Marshal = (\<lambda>t. AccessToken t),
      MkdirAll_error = (\<lambda>p. None),
      OpenFile_error = (\<lambda>p. None),
      Encode_error = (\<lambda>p. None),
      ListenAndServe_error = None,
      callback = None,
      Exchange = (\<lambda>c code. if code = ''ABC'' then Inr token0 else Inl (Error ''invalid_grant'')),
      NewService_error = (\<lambda>c. None),
      Send_error = (\<lambda>raw. None),
      Attachments_Get = (\<lambda>m a.
        if a = ''att1'' then Inr ''SGk=''
        else if a = ''att2'' then Inr ''SGVsbG8=''
        else Inl (Error ''notFound'')),
      WriteFile_error = (\<lambda>p. None),
      Open_error = (\<lambda>p. None)\<rparr>"

definition config0 :: Config where
  "config0 =
     \<lparr>ClientID = ''creds'', ClientSecret = ''secret'',
      Endpoint = ''https://accounts.google.com/o/oauth2/auth'',
      RedirectURL = '''', Scopes = scopes\<rparr>"

text \<open>A world with the credentials file and no token file, and one with both.\<close>

definition world0 :: world where
  "world0 =
     \<lparr>files = [''/home/u/.credentials/google_credentials.json'' \<mapsto> ''creds''],
      listening = False, trace = []\<rparr>"

definition world1 :: world where
  "world1 =
     \<lparr>files = [''/home/u/.credentials/google_credentials.json'' \<mapsto> ''creds'',
               ''/home/u/.credentials/token_gmail.json'' \<mapsto> ''ya29.a0'' @ [CHR 0x0A]],
      listening = False, trace = []\<rparr>"

text \<open>A callback that carries a code and a state other than the one of the request.\<close>

definition forged_callback :: request where
  "forged_callback = [(''state'', ''forged''), (''code'', ''ABC'')]"

text \<open>The flags of \<^verbatim>\<open>send --to a@x.com --subject Hi --body Hello\<close>.\<close>

definition flags0 :: flags where
  "flags0 =
     \<lparr>attach = [], bcc = '''', body = ''Hello'', cc = '''', downloadDir = ''~/Downloads'',
      maxResults = 10, query = '''', subject = ''Hi'', to = ''a@x.com''\<rparr>"

text \<open>Leaf parts with an inline payload, and leaf parts with a filename.\<close>

definition inline_part :: "string \<Rightarrow> string \<Rightarrow> MessagePart" where
  "inline_part mimeType d =
     MessagePart (Some \<lparr>AttachmentId = '''', Data = d, Size = 0\<rparr>) '''' [] mimeType '''' []"


text \<open>A message whose only payload is in a child of type \<^verbatim>\<open>text/html\<close>.\<close>

definition html_only :: MessagePart where
  "html_only =
     MessagePart None '''' [] ''multipart/alternative'' '''' [inline_part ''text/html'' ''SGk='']"

text \<open>A message whose only payload is two levels down.\<close>

definition deep_message :: MessagePart where
  "deep_message =
     MessagePart None '''' [] ''multipart/mixed'' ''''
       [MessagePart None '''' [] ''multipart/alternative'' ''''
          [inline_part ''text/plain'' ''SGk='']]"

text \<open>
  A message whose own payload and whose first plain-text child do not decode, with
  decodable plain-text children after them.
\<close>

definition mixed_message :: MessagePart where
  "mixed_message =
     MessagePart (Some \<lparr>AttachmentId = '''', Data = ''!'', Size = 1\<rparr>) '''' []
       ''multipart/alternative'' ''''
       [inline_part ''text/html'' ''SGk='', inline_part ''text/plain'' ''SGk'',
        inline_part ''text/plain'' ''SGVsbG8='', inline_part ''text/plain'' ''SGk='']"



chapter \<open>Properties\<close>

section \<open>Headers\<close>

lemma last_header_value_snoc:
  "last_header_value name (headers @ [h]) =
     (if Name h = name then Value h else last_header_value name headers)"
  by (simp add: last_header_value_def)

lemma extractHeaders_loop_last:
  "extractHeaders_loop hs (last_header_value ''Subject'' pre, last_header_value ''From'' pre) =
     (last_header_value ''Subject'' (pre @ hs), last_header_value ''From'' (pre @ hs))"
proof (induction hs arbitrary: pre)
  case Nil
  show ?case by simp
next
  case (Cons h hs)
  have step: "extractHeaders_loop (h # hs)
          (last_header_value ''Subject'' pre, last_header_value ''From'' pre) =
        extractHeaders_loop hs
          (last_header_value ''Subject'' (pre @ [h]), last_header_value ''From'' (pre @ [h]))"
    by (simp add: last_header_value_snoc)
  show ?case
    unfolding step using Cons.IH [of "pre @ [h]"] by simp
qed

text \<open>
  Claim C9. For every list of headers, \<^verbatim>\<open>extractHeaders\<close> returns as subject (as from) the
  value of the last header named exactly \<^verbatim>\<open>Subject\<close> (\<^verbatim>\<open>From\<close>), compared byte for byte,
  and the empty string when there is no such header; headers of any other name do not
  change the result.
\<close>

theorem extractHeaders_last_occurrence:
  "extractHeaders headers =
     (last_header_value ''Subject'' headers, last_header_value ''From'' headers)
   \<and> extractHeaders (filter (\<lambda>h. Name h = ''Subject'' \<or> Name h = ''From'') headers) =
       extractHeaders headers"
proof -
  have a: "\<And>hs. extractHeaders hs =
      (last_header_value ''Subject'' hs, last_header_value ''From'' hs)"
    using extractHeaders_loop_last [of _ "[]"]
    by (simp add: extractHeaders_def last_header_value_def)
  have b: "\<And>n. n = ''Subject'' \<or> n = ''From'' \<Longrightarrow>
      filter (\<lambda>h. Name h = n)
        (filter (\<lambda>h. Name h = ''Subject'' \<or> Name h = ''From'') headers) =
      filter (\<lambda>h. Name h = n) headers"
    by (induction headers) auto
  have c: "\<And>n. n = ''Subject'' \<or> n = ''From'' \<Longrightarrow>
      last_header_value n (filter (\<lambda>h. Name h = ''Subject'' \<or> Name h = ''From'') headers) =
      last_header_value n headers"
    unfolding last_header_value_def by (simp only: b)
  show ?thesis
    by (simp only: a c simp_thms)
qed

text \<open>
  On a list with two \<^verbatim>\<open>Subject\<close> headers, a lower-case \<^verbatim>\<open>subject\<close>, one \<^verbatim>\<open>From\<close> and one
  \<^verbatim>\<open>To\<close>, the second \<^verbatim>\<open>Subject\<close> wins and the lower-case name is ignored.
\<close>

theorem extractHeaders_last_occurrence_witness:
  "extractHeaders
     [\<lparr>Name = ''Subject'', Value = ''first''\<rparr>, \<lparr>Name = ''subject'', Value = ''lower''\<rparr>,
      \<lparr>Name = ''From'', Value = ''a@x.com''\<rparr>, \<lparr>Name = ''Subject'', Value = ''second''\<rparr>,
      \<lparr>Name = ''To'', Value = ''b@x.com''\<rparr>] = (''second'', ''a@x.com'')"
  using extractHeaders_last_occurrence
    [of "[\<lparr>Name = ''Subject'', Value = ''first''\<rparr>, \<lparr>Name = ''subject'', Value = ''lower''\<rparr>,
      \<lparr>Name = ''From'', Value = ''a@x.com''\<rparr>, \<lparr>Name = ''Subject'', Value = ''second''\<rparr>,
      \<lparr>Name = ''To'', Value = ''b@x.com''\<rparr>]"]
  by (simp add: last_header_value_def)

section \<open>The samples, encoded and decoded\<close>

lemma decode_Hi: "DecodeString ''SGk='' = Inr ''Hi''"
  by (simp add: DecodeString_def decodeMap_def encodeURL_def quantum_bytes_def char_of_def
      bit_Suc_0_iff)

lemma decode_Hello: "DecodeString ''SGVsbG8='' = Inr ''Hello''"
  by (simp add: DecodeString_def decodeMap_def encodeURL_def quantum_bytes_def char_of_def
      bit_Suc_0_iff)

lemma decode_unpadded: "DecodeString ''SGk'' = Inl (CorruptInputError 0)"
  by (simp add: DecodeString_def decodeMap_def encodeURL_def quantum_bytes_def)

lemma decode_bang: "DecodeString ''!'' = Inl (CorruptInputError 0)"
  by (simp add: DecodeString_def decodeMap_def encodeURL_def quantum_bytes_def)

lemmas sample_decodings = decode_Hi decode_Hello decode_unpadded decode_bang

text \<open>
  The error of the decoder names the offset: \<^verbatim>\<open>SGVsbG8\<close> ends inside its second quantum,
  which began at byte 4, and in \<^verbatim>\<open>SGk=x\<close> the character after the padding is byte 4.
\<close>

lemma decode_offset_text:
  "DecodeString ''SGVsbG8'' = Inl (Error ''illegal base64 data at input byte 4'')"
  "DecodeString ''SGk=x'' = Inl (Error ''illegal base64 data at input byte 4'')"
  by (simp_all add: DecodeString_def decodeMap_def encodeURL_def quantum_bytes_def
      CorruptInputError_def char_of_def bit_Suc_0_iff eval_nat_numeral)

lemma encode_scenario:
  "EncodeToString (''To: a@x.com'' @ CRLF @ ''Subject: Hi'' @ CRLF @ CRLF @ ''Hello'') =
     ''VG86IGFAeC5jb20NClN1YmplY3Q6IEhpDQoNCkhlbGxv''"
  by (simp add: CRLF_def encode6_def encodeURL_def)

lemma decode_scenario:
  "DecodeString ''VG86IGFAeC5jb20NClN1YmplY3Q6IEhpDQoNCkhlbGxv'' =
     Inr (''To: a@x.com'' @ CRLF @ ''Subject: Hi'' @ CRLF @ CRLF @ ''Hello'')"
  by (simp add: CRLF_def DecodeString_def decodeMap_def encodeURL_def quantum_bytes_def char_of_def
      bit_Suc_0_iff)

section \<open>Effects on the world\<close>

lemma trace_emit: "trace (emit a w) = trace w @ [a]"
  by (simp add: emit_def)

lemma listening_emit: "listening (emit a w) = listening w"
  by (simp add: emit_def)

lemma files_emit: "files (emit a w) = files w"
  by (simp add: emit_def)


lemma transfers_files_update [simp]:
  "transfers (w\<lparr>files := f\<rparr>) = transfers w"
  by (simp add: transfers_def)

section \<open>Bodies\<close>

text \<open>
  The payload reader of the code agrees with the specification's two notions: it returns
  something exactly on the parts whose payload decodes, and then the decoded text.
\<close>

lemma inline_payload_decodes:
  "inline_payload (Body p) = (if payload_decodes p then Some (payload_text p) else None)"
  by (simp add: inline_payload_def payload_decodes_def payload_text_def
      split: option.splits sum.splits)

lemma getBody_parts_decodes:
  "getBody_parts ps =
     (case filter (\<lambda>p. MimeType p = ''text/plain'' \<and> payload_decodes p) ps of
        [] \<Rightarrow> None
      | p # qs \<Rightarrow> Some (payload_text p))"
  by (induction ps) (simp_all add: inline_payload_decodes)

text \<open>
  Claim C7. For every message part, \<^verbatim>\<open>getBody\<close> returns the decoded data of the part's own
  inline payload when that payload exists and decodes; otherwise the decoded payload of
  the first immediate child of type \<^verbatim>\<open>text/plain\<close> whose inline payload exists and decodes;
  otherwise \<^verbatim>\<open>[No text content]\<close>. A payload that does not decode counts as absent: the
  scan goes on and never aborts.
\<close>

theorem getBody_refines_spec: "getBody part = spec_getBody part"
  by (simp add: getBody_def spec_getBody_def inline_payload_decodes getBody_parts_decodes
      split: list.splits)

text \<open>
  On \<open>mixed_message\<close> the part's own payload and the first plain-text child do not decode,
  the HTML child is skipped, and the text of the next plain-text child is returned.
\<close>

theorem getBody_refines_spec_witness: "getBody mixed_message = ''Hello''"
proof -
  have "getBody mixed_message = spec_getBody mixed_message"
    by (rule getBody_refines_spec)
  also have "\<dots> = ''Hello''"
    by (simp add: spec_getBody_def mixed_message_def inline_part_def payload_decodes_def
        payload_text_def sample_decodings)
  finally show ?thesis .
qed

lemma getBody_parts_None:
  "getBody_parts ps = None \<longleftrightarrow>
     \<not> list_ex has_payload (filter (\<lambda>p. MimeType p = ''text/plain'') ps)"
  by (induction ps) (auto simp: has_payload_def split: option.splits)

lemma getBody_parts_Some:
  "getBody_parts ps = Some d \<Longrightarrow>
     \<exists>p \<in> set (filter (\<lambda>p. MimeType p = ''text/plain'') ps). inline_payload (Body p) = Some d"
  by (induction ps) (auto split: option.splits if_splits)

lemma getBody_parts_view:
  "map (\<lambda>p. (MimeType p, Body p)) ps = map (\<lambda>p. (MimeType p, Body p)) qs \<Longrightarrow>
   getBody_parts ps = getBody_parts qs"
proof (induction ps arbitrary: qs)
  case Nil
  then show ?case by simp
next
  case (Cons p ps)
  then obtain q qs' where qs: "qs = q # qs'" by (cases qs) auto
  with Cons.prems have "MimeType p = MimeType q" "Body p = Body q"
    "map (\<lambda>p. (MimeType p, Body p)) ps = map (\<lambda>p. (MimeType p, Body p)) qs'" by auto
  with Cons.IH [of qs'] show ?case unfolding qs by (simp split: option.splits)
qed

text \<open>
  Claim C3 as stated fails: the scope of the part and all its immediate children is too
  wide. On \<open>html_only\<close> an immediate child of type \<^verbatim>\<open>text/html\<close> has a decodable inline
  payload, and \<^verbatim>\<open>getBody\<close> returns the sentinel all the same.
\<close>

theorem getBody_html_child_counterexample:
  "getBody html_only = ''[No text content]'' \<and> scope_has_payload html_only"
  by (simp add: getBody_def scope_has_payload_def html_only_def inline_part_def has_payload_def
      inline_payload_def sample_decodings)

text \<open>
  Claim C3, amended. \<^verbatim>\<open>getBody\<close> returns the sentinel whenever neither the part itself nor
  an immediate child of type \<^verbatim>\<open>text/plain\<close> has a non-empty inline payload that decodes;
  when one of them has, the result is the decoded payload of a part of that scope. The
  result depends only on the part's own body and on the type and body of each immediate
  child: children of other types and parts at grandchild depth or deeper are never read.
\<close>

theorem getBody_sentinel_text_scope:
  "(\<not> list_ex has_payload (text_scope part) \<longrightarrow> getBody part = ''[No text content]'')
   \<and> (list_ex has_payload (text_scope part) \<longrightarrow>
        (\<exists>p \<in> set (text_scope part). inline_payload (Body p) = Some (getBody part)))
   \<and> (body_view part = body_view part' \<longrightarrow> getBody part = getBody part')"
proof (intro conjI impI)
  assume "\<not> list_ex has_payload (text_scope part)"
  then show "getBody part = ''[No text content]''"
    using getBody_parts_None [of "Parts part"]
    by (auto simp: text_scope_def getBody_def has_payload_def split: option.splits)
next
  assume "list_ex has_payload (text_scope part)"
  show "\<exists>p \<in> set (text_scope part). inline_payload (Body p) = Some (getBody part)"
  proof (cases "inline_payload (Body part)")
    case (Some d)
    then show ?thesis by (auto simp: text_scope_def getBody_def)
  next
    case None
    with \<open>list_ex has_payload (text_scope part)\<close>
    have "getBody_parts (Parts part) \<noteq> None"
      using getBody_parts_None [of "Parts part"]
      by (auto simp: text_scope_def has_payload_def)
    then obtain d where d: "getBody_parts (Parts part) = Some d" by auto
    from getBody_parts_Some [OF d] d None show ?thesis
      by (auto simp: text_scope_def getBody_def)
  qed
next
  assume v: "body_view part = body_view part'"
  then have b: "Body part = Body part'"
    by (simp add: body_view_def)
  from v have p: "getBody_parts (Parts part) = getBody_parts (Parts part')"
    using getBody_parts_view [of "Parts part" "Parts part'"] by (simp add: body_view_def)
  show "getBody part = getBody part'"
    unfolding getBody_def b p ..
qed

text \<open>
  The three parts of the statement on samples: the sentinel for \<open>html_only\<close>, a payload of
  the scope for \<open>mixed_message\<close>, and for \<open>deep_message\<close>, whose only payload is two levels
  down, the same result as for the message without that grandchild.
\<close>

theorem getBody_sentinel_text_scope_witness:
  "\<not> list_ex has_payload (text_scope html_only)
   \<and> getBody html_only = ''[No text content]''
   \<and> list_ex has_payload (text_scope mixed_message)
   \<and> getBody mixed_message = ''Hello''
   \<and> getBody deep_message = ''[No text content]''"
proof -
  have h: "\<not> list_ex has_payload (text_scope html_only)"
    by (simp add: text_scope_def html_only_def inline_part_def has_payload_def
        inline_payload_def)
  have m: "list_ex has_payload (text_scope mixed_message)"
    by (simp add: text_scope_def mixed_message_def inline_part_def has_payload_def
        inline_payload_def sample_decodings)
  have v: "body_view deep_message =
      body_view (MessagePart None '''' [] ''multipart/mixed'' ''''
        [MessagePart None '''' [] ''multipart/alternative'' '''' []])"
    by (simp add: body_view_def deep_message_def)
  from getBody_sentinel_text_scope [of html_only] h
  have 1: "getBody html_only = ''[No text content]''" by blast
  from getBody_sentinel_text_scope [of mixed_message] m
  have "\<exists>p \<in> set (text_scope mixed_message). inline_payload (Body p) = Some (getBody mixed_message)"
    by blast
  then have 2: "getBody mixed_message = ''Hello''"
    by (simp add: getBody_def mixed_message_def inline_part_def inline_payload_def
        sample_decodings)
  from getBody_sentinel_text_scope [of deep_message
      "MessagePart None '''' [] ''multipart/mixed'' ''''
        [MessagePart None '''' [] ''multipart/alternative'' '''' []]"] v
  have "getBody deep_message =
      getBody (MessagePart None '''' [] ''multipart/mixed'' ''''
        [MessagePart None '''' [] ''multipart/alternative'' '''' []])" by blast
  then have 3: "getBody deep_message = ''[No text content]''"
    by (simp add: getBody_def inline_payload_def)
  from h 1 m 2 3 show ?thesis by blast
qed

section \<open>Attachments\<close>













section \<open>Base64: decoding inverts encoding\<close>

text \<open>
  Every character of the alphabet decodes to its index, so a quantum of four characters
  decodes to the three bytes it was made from, and a padded quantum to its one or two
  bytes.
\<close>

lemma decodeMap_loop_nth:
  "distinct enc \<Longrightarrow> i < length enc \<Longrightarrow> decodeMap_loop k enc (enc ! i) = Some (k + i)"
proof (induction enc arbitrary: k i)
  case Nil
  then show ?case by simp
next
  case (Cons e enc)
  show ?case
  proof (cases i)
    case 0
    then show ?thesis by simp
  next
    case (Suc j)
    with Cons.prems have "enc ! j \<noteq> e" and "distinct enc" and "j < length enc"
      by auto
    with Cons.IH [of j "k + 1"] Suc show ?thesis by simp
  qed
qed

lemma distinct_encodeURL: "distinct encodeURL"
  by (simp add: encodeURL_def)

lemma length_encodeURL: "length encodeURL = 64"
  by (simp add: encodeURL_def)

lemma decodeMap_encode6: "decodeMap (encode6 v) = Some (v mod 64)"
  using decodeMap_loop_nth [OF distinct_encodeURL, of "v mod 64" 0]
  by (simp add: decodeMap_def encode6_def length_encodeURL)

lemma decodeMap_pad: "decodeMap CHR ''='' = None"
  by (simp add: decodeMap_def encodeURL_def)

lemma digits_recombine:
  fixes v :: nat
  assumes "v < 16777216"
  shows "v div 262144 mod 64 * 262144 + v div 4096 mod 64 * 4096 + v div 64 mod 64 * 64
    + v mod 64 = v"
proof -
  have a: "v div 4096 = v div 64 div 64" and b: "v div 262144 = v div 64 div 64 div 64"
    by (simp_all add: div_mult2_eq)
  have "v div 64 div 64 div 64 < 64"
    using assms by (simp add: div_mult2_eq [symmetric])
  then have c: "v div 64 div 64 div 64 mod 64 = v div 64 div 64 div 64"
    by simp
  have 1: "v = v div 64 * 64 + v mod 64" by simp
  have 2: "v div 64 = v div 64 div 64 * 64 + v div 64 mod 64" by simp
  have 3: "v div 64 div 64 = v div 64 div 64 div 64 * 64 + v div 64 div 64 mod 64" by simp
  show ?thesis
    unfolding a b c using 1 2 3 by linarith
qed

lemma div_mod_base:
  fixes q r :: nat
  assumes "r < 256"
  shows "(q * 256 + r) div 256 = q" and "(q * 256 + r) mod 256 = r"
  using assms by simp_all

lemma bytes_of_val:
  fixes x y z :: nat
  assumes "x < 256" "y < 256" "z < 256"
  shows "(x * 65536 + y * 256 + z) div 65536 = x"
    and "(x * 65536 + y * 256 + z) div 256 mod 256 = y"
    and "(x * 65536 + y * 256 + z) mod 256 = z"
    and "x * 65536 + y * 256 + z < 16777216"
proof -
  have e: "x * 65536 + y * 256 + z = (x * 256 + y) * 256 + z"
    by simp
  from assms show "(x * 65536 + y * 256 + z) div 65536 = x"
    by simp
  show "(x * 65536 + y * 256 + z) div 256 mod 256 = y"
    by (simp only: e div_mod_base [OF assms(3)] div_mod_base [OF assms(2)])
  show "(x * 65536 + y * 256 + z) mod 256 = z"
    by (simp only: e div_mod_base [OF assms(3)])
  from assms show "x * 65536 + y * 256 + z < 16777216"
    by simp
qed

lemma chars_of_val:
  fixes a b c :: char
  defines "val \<equiv> (of_char a * 65536 + of_char b * 256 + of_char c :: nat)"
  shows "[char_of (val div 65536), char_of (val div 256), char_of val] = [a, b, c]"
proof -
  have 1: "char_of (val div 65536) = a"
    unfolding val_def by (simp add: bytes_of_val(1))
  have "char_of (val div 256) = char_of (val div 256 mod 256)"
    by simp
  also have "\<dots> = b"
    unfolding val_def by (simp only: bytes_of_val(2) nat_of_char_less_256 char_of_char)
  finally have 2: "char_of (val div 256) = b" .
  have "char_of val = char_of (val mod 256)"
    by simp
  also have "\<dots> = c"
    unfolding val_def by (simp only: bytes_of_val(3) nat_of_char_less_256 char_of_char)
  finally have 3: "char_of val = c" .
  from 1 2 3 show ?thesis by simp
qed

lemma quantum_bytes_4:
  "quantum_bytes [d0, d1, d2, d3] =
     [char_of ((d0 * 262144 + d1 * 4096 + d2 * 64 + d3) div 65536),
      char_of ((d0 * 262144 + d1 * 4096 + d2 * 64 + d3) div 256),
      char_of (d0 * 262144 + d1 * 4096 + d2 * 64 + d3)]"
  by (simp add: quantum_bytes_def Let_def)

lemma quantum_bytes_3:
  "quantum_bytes [d0, d1, d2] =
     [char_of ((d0 * 262144 + d1 * 4096 + d2 * 64 + 0) div 65536),
      char_of ((d0 * 262144 + d1 * 4096 + d2 * 64 + 0) div 256)]"
  by (simp add: quantum_bytes_def Let_def)

lemma quantum_bytes_2:
  "quantum_bytes [d0, d1] = [char_of ((d0 * 262144 + d1 * 4096 + 0 * 64 + 0) div 65536)]"
  by (simp add: quantum_bytes_def Let_def)

lemma quantum_bytes_digits:
  assumes "val < 16777216"
  shows "quantum_bytes [val div 262144 mod 64, val div 4096 mod 64, val div 64 mod 64, val mod 64] =
      [char_of (val div 65536), char_of (val div 256), char_of val]"
    and "val mod 64 = 0 \<Longrightarrow>
      quantum_bytes [val div 262144 mod 64, val div 4096 mod 64, val div 64 mod 64] =
      [char_of (val div 65536), char_of (val div 256)]"
    and "val mod 4096 = 0 \<Longrightarrow>
      quantum_bytes [val div 262144 mod 64, val div 4096 mod 64] = [char_of (val div 65536)]"
proof -
  note d = digits_recombine [OF assms]
  show "quantum_bytes [val div 262144 mod 64, val div 4096 mod 64, val div 64 mod 64, val mod 64] =
      [char_of (val div 65536), char_of (val div 256), char_of val]"
    unfolding quantum_bytes_4 d ..
  show "quantum_bytes [val div 262144 mod 64, val div 4096 mod 64, val div 64 mod 64] =
      [char_of (val div 65536), char_of (val div 256)]" if m: "val mod 64 = 0"
  proof -
    from d have "val div 262144 mod 64 * 262144 + val div 4096 mod 64 * 4096
        + val div 64 mod 64 * 64 + 0 = val"
      unfolding m .
    then show ?thesis
      unfolding quantum_bytes_3 by (simp only:)
  qed
  show "quantum_bytes [val div 262144 mod 64, val div 4096 mod 64] = [char_of (val div 65536)]"
    if z: "val mod 4096 = 0"
  proof -
    have "val mod 64 = val mod 4096 mod 64"
      by (simp add: mod_mod_cancel)
    with z have m: "val mod 64 = 0" by simp
    have "val mod 4096 = val div 64 mod 64 * 64 + val mod 64"
      using mod_mult2_eq [of val 64 64] by simp
    with z m have n: "val div 64 mod 64 = 0" by simp
    from d have "val div 262144 mod 64 * 262144 + val div 4096 mod 64 * 4096 + 0 * 64 + 0 = val"
      unfolding m n .
    then show ?thesis
      unfolding quantum_bytes_2 by (simp only:)
  qed
qed

lemma decode_full_quantum:
  "decode_quanta si [] (encode6 d0 # encode6 d1 # encode6 d2 # encode6 d3 # src) =
     (case decode_quanta (si + 4) [] src of
        Inl offset \<Rightarrow> Inl offset
      | Inr rest \<Rightarrow> Inr (quantum_bytes [d0 mod 64, d1 mod 64, d2 mod 64, d3 mod 64] @ rest))"
proof -
  have s: "si + 4 = Suc (Suc (Suc (Suc si)))"
    by simp
  show ?thesis
    unfolding s by (simp add: decodeMap_encode6 split: sum.splits)
qed

lemma decode_padded_quantum:
  "decode_quanta si [] [encode6 d0, encode6 d1, encode6 d2, CHR ''=''] =
     Inr (quantum_bytes [d0 mod 64, d1 mod 64, d2 mod 64])"
  "decode_quanta si [] [encode6 d0, encode6 d1, CHR ''='', CHR ''=''] =
     Inr (quantum_bytes [d0 mod 64, d1 mod 64])"
  by (simp_all add: decodeMap_encode6 decodeMap_pad)

lemma decode_quanta_EncodeToString: "decode_quanta si [] (EncodeToString s) = Inr s"
proof (induction s arbitrary: si rule: EncodeToString.induct)
  case (1 a b c src)
  define val :: nat where "val = of_char a * 65536 + of_char b * 256 + of_char c"
  have v: "val < 16777216"
    unfolding val_def by (rule bytes_of_val(4)) simp_all
  have "EncodeToString (a # b # c # src) =
      encode6 (val div 262144) # encode6 (val div 4096) # encode6 (val div 64) # encode6 val #
      EncodeToString src"
    by (simp add: val_def Let_def)
  then have "decode_quanta si [] (EncodeToString (a # b # c # src)) =
      Inr (quantum_bytes [val div 262144 mod 64, val div 4096 mod 64, val div 64 mod 64, val mod 64]
        @ src)"
    by (simp only: decode_full_quantum "1.IH" sum.case)
  also have "\<dots> = Inr ([char_of (val div 65536), char_of (val div 256), char_of val] @ src)"
    by (simp only: quantum_bytes_digits(1) [OF v])
  also have "\<dots> = Inr (a # b # c # src)"
    using chars_of_val [of a b c] by (simp add: val_def)
  finally show ?case .
next
  case (2 a b)
  define val :: nat where "val = of_char a * 65536 + of_char b * 256 + 0"
  have v: "val < 16777216"
    unfolding val_def by (rule bytes_of_val(4)) simp_all
  have m: "val mod 64 = 0"
    unfolding val_def by simp
  have "EncodeToString [a, b] =
      [encode6 (val div 262144), encode6 (val div 4096), encode6 (val div 64), CHR ''='']"
    by (simp add: val_def Let_def)
  then have "decode_quanta si [] (EncodeToString [a, b]) =
      Inr (quantum_bytes [val div 262144 mod 64, val div 4096 mod 64, val div 64 mod 64])"
    by (simp only: decode_padded_quantum)
  also have "\<dots> = Inr [char_of (val div 65536), char_of (val div 256)]"
    by (simp only: quantum_bytes_digits(2) [OF v m])
  also have "\<dots> = Inr [a, b]"
  proof -
    have 1: "char_of (val div 65536) = a"
      unfolding val_def by (simp add: bytes_of_val(1))
    have "char_of (val div 256) = char_of (val div 256 mod 256)"
      by simp
    also have "\<dots> = b"
      unfolding val_def by (simp only: bytes_of_val(2) nat_of_char_less_256 char_of_char zero_less_numeral)
    finally show ?thesis using 1 by simp
  qed
  finally show ?case .
next
  case (3 a)
  define val :: nat where "val = of_char a * 65536 + 0 * 256 + 0"
  have v: "val < 16777216"
    unfolding val_def by (rule bytes_of_val(4)) simp_all
  have m: "val mod 4096 = 0"
    unfolding val_def by simp
  have "EncodeToString [a] =
      [encode6 (val div 262144), encode6 (val div 4096), CHR ''='', CHR ''='']"
    by (simp add: val_def Let_def)
  then have "decode_quanta si [] (EncodeToString [a]) =
      Inr (quantum_bytes [val div 262144 mod 64, val div 4096 mod 64])"
    by (simp only: decode_padded_quantum)
  also have "\<dots> = Inr [char_of (val div 65536)]"
    by (simp only: quantum_bytes_digits(3) [OF v m])
  also have "\<dots> = Inr [a]"
    unfolding val_def by (simp add: bytes_of_val(1))
  finally show ?case .
next
  case 4
  show ?case by simp
qed

text \<open>
  Whatever text is encoded, the decoder returns that text: the raw message of \<^verbatim>\<open>runSend\<close>
  decodes to exactly the text that was built.
\<close>

lemma DecodeString_EncodeToString: "DecodeString (EncodeToString s) = Inr s"
  by (simp add: DecodeString_def decode_quanta_EncodeToString)

section \<open>Sending\<close>

lemma sent_raw_append: "sent_raw (xs @ ys) = sent_raw xs @ sent_raw ys"
  by (induction xs rule: sent_raw.induct) simp_all

lemma runSend_message_text:
  "runSend_message fl =
     ''To: '' @ to fl @ CRLF
     @ (if cc fl = '''' then '''' else ''Cc: '' @ cc fl @ CRLF)
     @ (if bcc fl = '''' then '''' else ''Bcc: '' @ bcc fl @ CRLF)
     @ ''Subject: '' @ subject fl @ CRLF @ CRLF @ body fl"
  by (simp add: runSend_message_def WriteString_def Let_def)

lemma getGmailService_world1:
  "getGmailService env0 world1 = (Inr (Service (Client config0 token0)), world1)"
  by (simp add: getGmailService_def getClient_def Let_def env0_def world1_def os_ReadFile_def os_Open_def
      tokenFromFile_def getCredentialsPath_def credentialsFile_def tokenFile_def config0_def
      token0_def)

text \<open>
  Claim C4. When the service is obtained, \<^verbatim>\<open>runSend\<close> hands exactly one raw message to the
  send call: the base64url encoding of the headers in the order To, Cc (if not empty), Bcc
  (if not empty), Subject, then an empty line, then the body, each header line ended by
  CR LF; decoding the raw message gives back exactly that text. For \<^verbatim>\<open>--to a@x.com --subject Hi --body Hello\<close> with empty cc and bcc the encoded
  text is exactly \<^verbatim>\<open>To: a@x.com\r\nSubject: Hi\r\n\r\nHello\<close>.
\<close>

theorem runSend_raw_message:
  assumes "getGmailService env w = (Inr service, w')"
  shows "sent_raw (trace (snd (runSend env fl w))) =
      sent_raw (trace w') @
      [EncodeToString
         (''To: '' @ to fl @ CRLF
          @ (if cc fl = '''' then '''' else ''Cc: '' @ cc fl @ CRLF)
          @ (if bcc fl = '''' then '''' else ''Bcc: '' @ bcc fl @ CRLF)
          @ ''Subject: '' @ subject fl @ CRLF @ CRLF @ body fl)]
    \<and> map DecodeString (sent_raw (trace (snd (runSend env fl w)))) =
      map DecodeString (sent_raw (trace w')) @
      [Inr (''To: '' @ to fl @ CRLF
          @ (if cc fl = '''' then '''' else ''Cc: '' @ cc fl @ CRLF)
          @ (if bcc fl = '''' then '''' else ''Bcc: '' @ bcc fl @ CRLF)
          @ ''Subject: '' @ subject fl @ CRLF @ CRLF @ body fl)]
    \<and> (to fl = ''a@x.com'' \<and> subject fl = ''Hi'' \<and> body fl = ''Hello'' \<and> cc fl = '''' \<and> bcc fl = ''''
        \<longrightarrow> sent_raw (trace (snd (runSend env fl w))) =
          sent_raw (trace w') @
          [EncodeToString (''To: a@x.com'' @ CRLF @ ''Subject: Hi'' @ CRLF @ CRLF @ ''Hello'')])"
proof -
  have s: "sent_raw (trace (snd (runSend env fl w))) =
      sent_raw (trace w') @ [EncodeToString (runSend_message fl)]"
    using assms
    by (simp add: runSend_def Let_def trace_emit sent_raw_append split: option.splits)
  have d: "map DecodeString (sent_raw (trace (snd (runSend env fl w)))) =
      map DecodeString (sent_raw (trace w')) @ [Inr (runSend_message fl)]"
    unfolding s by (simp add: DecodeString_EncodeToString)
  from s d show ?thesis
    by (simp add: runSend_message_text)
qed

text \<open>
  The scenario run in \<open>world1\<close>, where the token file exists: the one raw message sent, and
  what it decodes to.
\<close>

theorem runSend_raw_message_witness:
  "sent_raw (trace (snd (runSend env0 flags0 world1))) =
     [''VG86IGFAeC5jb20NClN1YmplY3Q6IEhpDQoNCkhlbGxv'']
   \<and> DecodeString ''VG86IGFAeC5jb20NClN1YmplY3Q6IEhpDQoNCkhlbGxv'' =
       Inr (''To: a@x.com'' @ CRLF @ ''Subject: Hi'' @ CRLF @ CRLF @ ''Hello'')"
proof -
  have f: "to flags0 = ''a@x.com'' \<and> subject flags0 = ''Hi'' \<and> body flags0 = ''Hello''
      \<and> cc flags0 = '''' \<and> bcc flags0 = ''''"
    by (simp add: flags0_def)
  from runSend_raw_message [OF getGmailService_world1, of flags0] f
  have "sent_raw (trace (snd (runSend env0 flags0 world1))) =
      sent_raw (trace world1) @
      [EncodeToString (''To: a@x.com'' @ CRLF @ ''Subject: Hi'' @ CRLF @ CRLF @ ''Hello'')]"
    by blast
  then have "sent_raw (trace (snd (runSend env0 flags0 world1))) =
      sent_raw (trace world1) @ [''VG86IGFAeC5jb20NClN1YmplY3Q6IEhpDQoNCkhlbGxv'']"
    by (simp only: encode_scenario)
  moreover have "sent_raw (trace world1) = []"
    by (simp add: world1_def)
  ultimately show ?thesis
    by (simp add: decode_scenario)
qed

text \<open>
  Claim C5. Two send invocations that agree on to, cc, bcc, subject and body have the same
  result and the same effects, whatever the values of their \<^verbatim>\<open>--attach\<close> flags (and of the
  flags of the other commands): the attachments never reach the message.
\<close>

theorem runSend_ignores_attach:
  assumes "to f1 = to f2" and "cc f1 = cc f2" and "bcc f1 = bcc f2"
    and "subject f1 = subject f2" and "body f1 = body f2"
  shows "runSend env f1 w = runSend env f2 w"
proof -
  from assms have m: "runSend_message f1 = runSend_message f2"
    by (simp add: runSend_message_text)
  show ?thesis
    unfolding runSend_def m assms(1) ..
qed

text \<open>The scenario with and without two attachment paths.\<close>

theorem runSend_ignores_attach_witness:
  "runSend env0 (flags0\<lparr>attach := [''/etc/hosts'', ''report.pdf'']\<rparr>) world1 =
     runSend env0 flags0 world1"
  using runSend_ignores_attach [of "flags0\<lparr>attach := [''/etc/hosts'', ''report.pdf'']\<rparr>" flags0
      env0 world1]
  by simp

section \<open>The authorization flow\<close>

lemma callback_handler_result:
  "fst (callback_handler r w) =
     (if Query_Get r ''code'' = '''' then Inl (Error ''no code in callback'')
      else Inr (Query_Get r ''code''))"
  by (simp add: callback_handler_def Let_def)

lemma callback_handler_code:
  "Query_Get r ''code'' = Query_Get r' ''code'' \<Longrightarrow> callback_handler r w = callback_handler r' w"
  by (simp add: callback_handler_def)

text \<open>
  Claim C1 as stated fails. The authorization URL carries the state \<^verbatim>\<open>state-token\<close>; a
  callback with a code and the state \<^verbatim>\<open>forged\<close> is accepted: the server is shut down, the
  code is exchanged and the flow returns the token.
\<close>

theorem forged_state_accepted:
  "Query_Get forged_callback ''state'' \<noteq> ''state-token''
   \<and> fst (getTokenFromWeb (env0\<lparr>callback := Some forged_callback\<rparr>) config0 world0) = Inr token0
   \<and> trace (snd (snd (getTokenFromWeb (env0\<lparr>callback := Some forged_callback\<rparr>) config0 world0))) =
       [ListenAndServe '':8080'',
        Stdout (''Opening browser for authentication...'' @ LF),
        Printf_URL (''If browser doesn'' @ [CHR 0x27] @ ''t open, visit:'' @ LF @ ''%v'' @ LF @ LF)
          \<lparr>endpoint = ''https://accounts.google.com/o/oauth2/auth'', client_id = ''creds'',
           redirect_uri = ''http://localhost:8080/oauth2callback'', scope = scopes,
           state = ''state-token'', access_type = ''offline''\<rparr>,
        ExecStart [''xdg-open'']
          \<lparr>endpoint = ''https://accounts.google.com/o/oauth2/auth'', client_id = ''creds'',
           redirect_uri = ''http://localhost:8080/oauth2callback'', scope = scopes,
           state = ''state-token'', access_type = ''offline''\<rparr>,
        Respond ''text/html'' success_page,
        Shutdown,
        Exchange_call ''ABC'',
        Stdout (LF @ ''Authentication successful!'' @ LF)]"
  by (simp add: getTokenFromWeb_def callback_handler_def Let_def env0_def forged_callback_def
      Query_Get_def config0_def world0_def AuthCodeURL_def browser_command_def trace_emit)

text \<open>
  Claim C1, amended. The callback handler reads the \<^verbatim>\<open>code\<close> parameter only and never
  compares the \<^verbatim>\<open>state\<close> parameter. Once the server has started, the flow for a callback
  is the following, whatever the callback's state. The URL that is printed and opened
  carries the fixed state \<^verbatim>\<open>state-token\<close>. A callback with a code is accepted: the success
  page is sent, the listener is shut down, the code is exchanged, and the flow returns
  the token or the wrapped error of the exchange. A callback without a code is the only
  failure of the handler, \<^verbatim>\<open>no code in callback\<close>, with no exchange and the listener left
  running. Two callbacks with the same code give the same result and the same effects.
\<close>

theorem callback_code_decides:
  "(ListenAndServe_error env = None \<longrightarrow>
     getTokenFromWeb (env\<lparr>callback := Some r\<rparr>) config w =
       (let code = Query_Get r ''code'';
            config' = config\<lparr>RedirectURL := ''http://localhost:8080/oauth2callback''\<rparr>;
            url = \<lparr>endpoint = Endpoint config, client_id = ClientID config,
                   redirect_uri = ''http://localhost:8080/oauth2callback'',
                   scope = Scopes config, state = ''state-token'',
                   access_type = ''offline''\<rparr>;
            started =
              [ListenAndServe '':8080'',
               Stdout (''Opening browser for authentication...'' @ LF),
               Printf_URL (''If browser doesn'' @ [CHR 0x27] @ ''t open, visit:'' @ LF
                 @ ''%v'' @ LF @ LF) url]
              @ (case browser_command (GOOS env) of
                   None \<Rightarrow> []
                 | Some cmd \<Rightarrow> [ExecStart cmd url]);
            accepted = [Respond ''text/html'' success_page, Shutdown, Exchange_call code] in
        if code = '''' then
          (Inl (Error ''no code in callback''), config',
           w\<lparr>listening := True, trace := trace w @ started\<rparr>)
        else
          (case Exchange env config' code of
             Inl err \<Rightarrow>
               (Inl (Errorf_w ''unable to retrieve token from web: '' err), config',
                w\<lparr>listening := False, trace := trace w @ started @ accepted\<rparr>)
           | Inr tok \<Rightarrow>
               (Inr tok, config',
                w\<lparr>listening := False,
                  trace := trace w @ started @ accepted
                    @ [Stdout (LF @ ''Authentication successful!'' @ LF)]\<rparr>))))
   \<and> (Query_Get r ''code'' = Query_Get r' ''code'' \<longrightarrow>
        getTokenFromWeb (env\<lparr>callback := Some r\<rparr>) config w =
        getTokenFromWeb (env\<lparr>callback := Some r'\<rparr>) config w)"
proof (intro conjI impI)
  assume "ListenAndServe_error env = None"
  then show "getTokenFromWeb (env\<lparr>callback := Some r\<rparr>) config w =
       (let code = Query_Get r ''code'';
            config' = config\<lparr>RedirectURL := ''http://localhost:8080/oauth2callback''\<rparr>;
            url = \<lparr>endpoint = Endpoint config, client_id = ClientID config,
                   redirect_uri = ''http://localhost:8080/oauth2callback'',
                   scope = Scopes config, state = ''state-token'',
                   access_type = ''offline''\<rparr>;
            started =
              [ListenAndServe '':8080'',
               Stdout (''Opening browser for authentication...'' @ LF),
               Printf_URL (''If browser doesn'' @ [CHR 0x27] @ ''t open, visit:'' @ LF
                 @ ''%v'' @ LF @ LF) url]
              @ (case browser_command (GOOS env) of
                   None \<Rightarrow> []
                 | Some cmd \<Rightarrow> [ExecStart cmd url]);
            accepted = [Respond ''text/html'' success_page, Shutdown, Exchange_call code] in
        if code = '''' then
          (Inl (Error ''no code in callback''), config',
           w\<lparr>listening := True, trace := trace w @ started\<rparr>)
        else
          (case Exchange env config' code of
             Inl err \<Rightarrow>
               (Inl (Errorf_w ''unable to retrieve token from web: '' err), config',
                w\<lparr>listening := False, trace := trace w @ started @ accepted\<rparr>)
           | Inr tok \<Rightarrow>
               (Inr tok, config',
                w\<lparr>listening := False,
                  trace := trace w @ started @ accepted
                    @ [Stdout (LF @ ''Authentication successful!'' @ LF)]\<rparr>)))"
    by (simp add: getTokenFromWeb_def callback_handler_def Let_def emit_def AuthCodeURL_def
        split: sum.splits option.splits)
next
  assume q: "Query_Get r ''code'' = Query_Get r' ''code''"
  show "getTokenFromWeb (env\<lparr>callback := Some r\<rparr>) config w =
        getTokenFromWeb (env\<lparr>callback := Some r'\<rparr>) config w"
    by (cases "ListenAndServe_error env")
      (simp_all add: getTokenFromWeb_def Let_def callback_handler_code [OF q]
        split: prod.splits sum.splits)
qed

text \<open>
  The forged callback in the sample environment: the URL that was opened carries the state
  \<^verbatim>\<open>state-token\<close>, the callback carries the state \<^verbatim>\<open>forged\<close>, and the flow answers with the
  success page, shuts the listener down, exchanges the code and returns the token, as it
  does for the callback with the state of the URL.
\<close>

theorem callback_code_decides_witness:
  "getTokenFromWeb (env0\<lparr>callback := Some forged_callback\<rparr>) config0 world0 =
     (Inr token0,
      config0\<lparr>RedirectURL := ''http://localhost:8080/oauth2callback''\<rparr>,
      world0\<lparr>listening := False,
        trace :=
          [ListenAndServe '':8080'',
           Stdout (''Opening browser for authentication...'' @ LF),
           Printf_URL (''If browser doesn'' @ [CHR 0x27] @ ''t open, visit:'' @ LF
               @ ''%v'' @ LF @ LF)
             \<lparr>endpoint = ''https://accounts.google.com/o/oauth2/auth'', client_id = ''creds'',
              redirect_uri = ''http://localhost:8080/oauth2callback'', scope = scopes,
              state = ''state-token'', access_type = ''offline''\<rparr>,
           ExecStart [''xdg-open'']
             \<lparr>endpoint = ''https://accounts.google.com/o/oauth2/auth'', client_id = ''creds'',
              redirect_uri = ''http://localhost:8080/oauth2callback'', scope = scopes,
              state = ''state-token'', access_type = ''offline''\<rparr>,
           Respond ''text/html'' success_page,
           Shutdown,
           Exchange_call ''ABC'',
           Stdout (LF @ ''Authentication successful!'' @ LF)]\<rparr>)
   \<and> getTokenFromWeb (env0\<lparr>callback := Some forged_callback\<rparr>) config0 world0 =
       getTokenFromWeb (env0\<lparr>callback := Some [(''code'', ''ABC''), (''state'', ''state-token'')]\<rparr>)
         config0 world0"
proof -
  have l: "ListenAndServe_error env0 = None"
    by (simp add: env0_def)
  have c: "Query_Get forged_callback ''code'' = ''ABC''"
    by (simp add: forged_callback_def Query_Get_def)
  have q: "Query_Get forged_callback ''code'' =
      Query_Get [(''code'', ''ABC''), (''state'', ''state-token'')] ''code''"
    by (simp add: forged_callback_def Query_Get_def)
  have e: "Exchange env0 c ''ABC'' = Inr token0" for c
    by (simp add: env0_def)
  have g: "GOOS env0 = ''linux''"
    by (simp add: env0_def)
  note all = callback_code_decides
    [of env0 forged_callback config0 world0 "[(''code'', ''ABC''), (''state'', ''state-token'')]"]
  have first: "getTokenFromWeb (env0\<lparr>callback := Some forged_callback\<rparr>) config0 world0 =
     (Inr token0,
      config0\<lparr>RedirectURL := ''http://localhost:8080/oauth2callback''\<rparr>,
      world0\<lparr>listening := False,
        trace :=
          [ListenAndServe '':8080'',
           Stdout (''Opening browser for authentication...'' @ LF),
           Printf_URL (''If browser doesn'' @ [CHR 0x27] @ ''t open, visit:'' @ LF
               @ ''%v'' @ LF @ LF)
             \<lparr>endpoint = ''https://accounts.google.com/o/oauth2/auth'', client_id = ''creds'',
              redirect_uri = ''http://localhost:8080/oauth2callback'', scope = scopes,
              state = ''state-token'', access_type = ''offline''\<rparr>,
           ExecStart [''xdg-open'']
             \<lparr>endpoint = ''https://accounts.google.com/o/oauth2/auth'', client_id = ''creds'',
              redirect_uri = ''http://localhost:8080/oauth2callback'', scope = scopes,
              state = ''state-token'', access_type = ''offline''\<rparr>,
           Respond ''text/html'' success_page,
           Shutdown,
           Exchange_call ''ABC'',
           Stdout (LF @ ''Authentication successful!'' @ LF)]\<rparr>)"
    unfolding all [THEN conjunct1, THEN mp, OF l]
    by (simp add: Let_def c e g browser_command_def config0_def world0_def)
  have second: "getTokenFromWeb (env0\<lparr>callback := Some forged_callback\<rparr>) config0 world0 =
       getTokenFromWeb (env0\<lparr>callback := Some [(''code'', ''ABC''), (''state'', ''state-token'')]\<rparr>)
         config0 world0"
    by (rule all [THEN conjunct2, THEN mp, OF q])
  from first second show ?thesis
    by (rule conjI)
qed

text \<open>
  Claim C2 at its failing inputs. When no callback arrives within the timeout, the flow
  returns the timeout error while the server is still listening: no shutdown was made.
  The same holds for a callback without a code. Only the path that received a code shuts
  the server down.
\<close>

theorem timeout_leaves_listener:
  "fst (getTokenFromWeb env0 config0 world0) =
     Inl (Error ''authentication timeout after 3 minutes'')
   \<and> listening (snd (snd (getTokenFromWeb env0 config0 world0)))
   \<and> Shutdown \<notin> set (trace (snd (snd (getTokenFromWeb env0 config0 world0))))
   \<and> fst (getTokenFromWeb (env0\<lparr>callback := Some [(''error'', ''access_denied'')]\<rparr>) config0 world0) =
       Inl (Error ''no code in callback'')
   \<and> listening (snd (snd (getTokenFromWeb
       (env0\<lparr>callback := Some [(''error'', ''access_denied'')]\<rparr>) config0 world0)))
   \<and> \<not> listening (snd (snd (getTokenFromWeb
       (env0\<lparr>callback := Some [(''code'', ''ABC'')]\<rparr>) config0 world0)))"
  by (simp add: getTokenFromWeb_def callback_handler_def Let_def env0_def
      Query_Get_def config0_def world0_def AuthCodeURL_def browser_command_def trace_emit
      listening_emit)

text \<open>
  On every path: after the flow the server is listening exactly when it had started and
  no code was received, that is, after the timeout and after a callback without a code.
\<close>

lemma getTokenFromWeb_listening:
  "listening (snd (snd (getTokenFromWeb env conf w))) =
     (case ListenAndServe_error env of
        Some err \<Rightarrow> listening w
      | None \<Rightarrow>
          (case callback env of
             None \<Rightarrow> True
           | Some r \<Rightarrow> Query_Get r ''code'' = ''''))"
  by (simp add: getTokenFromWeb_def callback_handler_def Let_def listening_emit
      split: option.splits sum.splits)

section \<open>The token file\<close>

text \<open>
  What \<^verbatim>\<open>saveToken\<close> leaves in the file when it returns no error: the text the JSON encoder
  made of the token, followed by a line feed, in place of any earlier content.
\<close>

lemma saveToken_files:
  "fst (saveToken env path token w) = None \<Longrightarrow>
   files (snd (saveToken env path token w)) path = Some (json_Marshal env token @ LF)"
  by (simp add: saveToken_def Let_def split: option.splits)

text \<open>
  Loading after such a save, when the file can be opened, returns what the JSON decoder
  makes of exactly that text.
  Whether this is the token that was saved is decided by the encoder and the decoder of
  the JSON library alone.
\<close>

lemma tokenFromFile_after_saveToken:
  "fst (saveToken env path token w) = None \<Longrightarrow> Open_error env path = None \<Longrightarrow>
   tokenFromFile env (snd (saveToken env path token w)) path =
     json_Decode env (json_Marshal env token @ LF)"
  by (simp add: tokenFromFile_def os_Open_def saveToken_files)

text \<open>
  When the directory cannot be created, \<^verbatim>\<open>saveToken\<close> returns the error, no file is
  written, and loading from the path fails.
\<close>

lemma saveToken_MkdirAll_failure:
  "fst (saveToken (env0\<lparr>MkdirAll_error := (\<lambda>p. Some (Error ''permission denied''))\<rparr>)
        ''/home/u/.credentials/token_gmail.json'' token0 world0) =
     Some (Error ''permission denied'')
   \<and> tokenFromFile (env0\<lparr>MkdirAll_error := (\<lambda>p. Some (Error ''permission denied''))\<rparr>)
        (snd (saveToken (env0\<lparr>MkdirAll_error := (\<lambda>p. Some (Error ''permission denied''))\<rparr>)
           ''/home/u/.credentials/token_gmail.json'' token0 world0))
        ''/home/u/.credentials/token_gmail.json'' =
     Inl (Error ''open /home/u/.credentials/token_gmail.json: no such file or directory'')"
  by (simp add: saveToken_def Let_def env0_def tokenFromFile_def os_Open_def world0_def
      files_emit)

section \<open>The client\<close>

lemma saveToken_trace:
  "\<exists>rest. trace (snd (saveToken env path token w)) =
     trace w @ Stderr (''Saving credentials to: '' @ path @ LF)
       # MkdirAll (filepath_Dir env path) # rest"
  by (simp add: saveToken_def Let_def trace_emit split: option.splits)

lemma callback_handler_trace:
  "\<exists>rest. trace (snd (callback_handler r w)) = trace w @ rest"
  by (simp add: callback_handler_def Let_def trace_emit)

lemma getTokenFromWeb_starts_server:
  "ListenAndServe '':8080'' \<in> set (trace (snd (snd (getTokenFromWeb env conf w))))"
proof -
  have "\<exists>rest. trace (snd (snd (getTokenFromWeb env conf w))) =
      trace w @ ListenAndServe '':8080'' # rest"
    by (simp add: getTokenFromWeb_def callback_handler_def Let_def trace_emit
        split: option.splits sum.splits prod.splits)
  then show ?thesis by auto
qed

lemma saveToken_keeps_trace:
  "set (trace w) \<subseteq> set (trace (snd (saveToken env path token w)))"
  using saveToken_trace [of env path token w] by auto

text \<open>
  Claim C10. In \<^verbatim>\<open>getClient\<close>, when the credentials are read and parsed and loading the
  token fails, the authorization flow is run (its server is started); when it yields a
  token, a save to the token path is attempted, and whether the save succeeds or fails,
  \<^verbatim>\<open>getClient\<close> returns the client built from the token in memory. A failed save only adds
  a warning on standard error.
\<close>

theorem getClient_save_failure_not_fatal:
  assumes creds: "os_ReadFile env w (filepath_Join env (getCredentialsPath env) credentialsFile) = Inr b"
    and cfg: "ConfigFromJSON env b scopes = Inr config"
    and load: "tokenFromFile env w (filepath_Join env (getCredentialsPath env) tokenFile) = Inl e"
  shows "ListenAndServe '':8080'' \<in> set (trace (snd (getClient env w)))
    \<and> (getTokenFromWeb env config w = (Inr token, config', w') \<longrightarrow>
         fst (getClient env w) = Inr (Client config' token)
         \<and> MkdirAll (filepath_Dir env (filepath_Join env (getCredentialsPath env) tokenFile))
             \<in> set (trace (snd (getClient env w)))
         \<and> (case saveToken env (filepath_Join env (getCredentialsPath env) tokenFile) token w' of
              (None, w'') \<Rightarrow> snd (getClient env w) = w''
            | (Some err, w'') \<Rightarrow>
                snd (getClient env w) =
                  emit (Stderr (''Warning: unable to save token: '' @ msg err @ LF)) w''))"
proof (intro conjI impI)
  obtain r c1 w1 where f: "getTokenFromWeb env config w = (r, c1, w1)"
    by (metis surj_pair)
  from getTokenFromWeb_starts_server [of env config w] f
  have l: "ListenAndServe '':8080'' \<in> set (trace w1)" by simp
  show "ListenAndServe '':8080'' \<in> set (trace (snd (getClient env w)))"
  proof (cases r)
    case (Inl err)
    with f l creds cfg load show ?thesis
      by (simp add: getClient_def Let_def)
  next
    case (Inr tok)
    obtain s w2 where s:
      "saveToken env (filepath_Join env (getCredentialsPath env) tokenFile) tok w1 = (s, w2)"
      by (metis surj_pair)
    from saveToken_keeps_trace [of w1 env "filepath_Join env (getCredentialsPath env) tokenFile" tok]
      s l
    have "ListenAndServe '':8080'' \<in> set (trace w2)" by auto
    with Inr f s creds cfg load show ?thesis
      by (cases s) (simp_all add: getClient_def Let_def trace_emit)
  qed
next
  assume flow: "getTokenFromWeb env config w = (Inr token, config', w')"
  obtain r w'' where s:
    "saveToken env (filepath_Join env (getCredentialsPath env) tokenFile) token w' = (r, w'')"
    by (metis surj_pair)
  from saveToken_trace [of env "filepath_Join env (getCredentialsPath env) tokenFile" token w'] s
  have m: "MkdirAll (filepath_Dir env (filepath_Join env (getCredentialsPath env) tokenFile))
      \<in> set (trace w'')"
    by auto
  from s m creds cfg load flow
  have all: "fst (getClient env w) = Inr (Client config' token)
      \<and> MkdirAll (filepath_Dir env (filepath_Join env (getCredentialsPath env) tokenFile))
          \<in> set (trace (snd (getClient env w)))
      \<and> (case saveToken env (filepath_Join env (getCredentialsPath env) tokenFile) token w' of
           (None, w'') \<Rightarrow> snd (getClient env w) = w''
         | (Some err, w'') \<Rightarrow>
             snd (getClient env w) =
               emit (Stderr (''Warning: unable to save token: '' @ msg err @ LF)) w'')"
    by (cases r) (simp_all add: getClient_def Let_def trace_emit)
  show "fst (getClient env w) = Inr (Client config' token)"
    by (rule all [THEN conjunct1])
  show "MkdirAll (filepath_Dir env (filepath_Join env (getCredentialsPath env) tokenFile))
      \<in> set (trace (snd (getClient env w)))"
    by (rule all [THEN conjunct2, THEN conjunct1])
  show "case saveToken env (filepath_Join env (getCredentialsPath env) tokenFile) token w' of
      (None, w'') \<Rightarrow> snd (getClient env w) = w''
    | (Some err, w'') \<Rightarrow>
        snd (getClient env w) =
          emit (Stderr (''Warning: unable to save token: '' @ msg err @ LF)) w''"
    by (rule all [THEN conjunct2, THEN conjunct2])
qed

text \<open>
  In a world without a token file, with a callback that carries a code and a directory
  that cannot be created: the client is returned and the warning is the last effect.
\<close>

theorem getClient_save_failure_not_fatal_witness:
  "fst (getClient
      (env0\<lparr>callback := Some [(''code'', ''ABC''), (''state'', ''state-token'')],
            MkdirAll_error := (\<lambda>p. Some (Error ''permission denied''))\<rparr>) world0) =
     Inr (Client (config0\<lparr>RedirectURL := ''http://localhost:8080/oauth2callback''\<rparr>) token0)
   \<and> last (trace (snd (getClient
      (env0\<lparr>callback := Some [(''code'', ''ABC''), (''state'', ''state-token'')],
            MkdirAll_error := (\<lambda>p. Some (Error ''permission denied''))\<rparr>) world0))) =
     Stderr (''Warning: unable to save token: permission denied'' @ LF)"
proof -
  let ?env = "env0\<lparr>callback := Some [(''code'', ''ABC''), (''state'', ''state-token'')],
            MkdirAll_error := (\<lambda>p. Some (Error ''permission denied''))\<rparr>"
  let ?config = "config0\<lparr>RedirectURL := ''http://localhost:8080/oauth2callback''\<rparr>"
  have creds: "os_ReadFile ?env world0 (filepath_Join ?env (getCredentialsPath ?env) credentialsFile) =
      Inr ''creds''"
    by (simp add: os_ReadFile_def os_Open_def world0_def env0_def getCredentialsPath_def
        credentialsFile_def)
  have cfg: "ConfigFromJSON ?env ''creds'' scopes = Inr config0"
    by (simp add: env0_def config0_def)
  have load: "tokenFromFile ?env world0 (filepath_Join ?env (getCredentialsPath ?env) tokenFile) =
      Inl (Error ''open /home/u/.credentials/token_gmail.json: no such file or directory'')"
    by (simp add: tokenFromFile_def os_Open_def world0_def env0_def getCredentialsPath_def
        tokenFile_def)
  obtain w' where flow: "getTokenFromWeb ?env config0 world0 = (Inr token0, ?config, w')"
    by (simp add: getTokenFromWeb_def callback_handler_def Let_def env0_def Query_Get_def)
  have save: "saveToken ?env (filepath_Join ?env (getCredentialsPath ?env) tokenFile) token0 w' =
      (Some (Error ''permission denied''),
       emit (MkdirAll ''/home/u/.credentials'')
         (emit (Stderr (''Saving credentials to: /home/u/.credentials/token_gmail.json'' @ LF)) w'))"
    by (simp add: saveToken_def Let_def env0_def getCredentialsPath_def tokenFile_def)
  note t = getClient_save_failure_not_fatal
    [OF creds cfg load, of token0 ?config w', THEN conjunct2, THEN mp, OF flow]
  from t [THEN conjunct1] t [THEN conjunct2, THEN conjunct2] save show ?thesis
    by (simp add: trace_emit)
qed

text \<open>When the flow fails, nothing is saved and \<^verbatim>\<open>getClient\<close> returns the flow's error.\<close>

lemma getClient_flow_failure:
  assumes "os_ReadFile env w (filepath_Join env (getCredentialsPath env) credentialsFile) = Inr b"
    and "ConfigFromJSON env b scopes = Inr config"
    and "tokenFromFile env w (filepath_Join env (getCredentialsPath env) tokenFile) = Inl e"
    and "getTokenFromWeb env config w = (Inl err, config', w')"
  shows "getClient env w = (Inl err, w')"
  using assms by (simp add: getClient_def Let_def)

end
